theory Spec2Isabelle
  imports Complex_Main
begin

section \<open>The brick breaker of \<^verbatim>\<open>src/components/BrickBreakerGame.tsx\<close>\<close>

text \<open>
  The component keeps one \<^verbatim>\<open>GameState\<close> object and replaces it, once per animation
  frame, by the result of the updater that \<^verbatim>\<open>gameLoop\<close> hands to \<^verbatim>\<open>setGameState\<close>.
  That updater is the simulation step; it is embedded here as the function \<open>gameLoop\<close>
  from states to states, together with the other updaters of the component
  (\<^verbatim>\<open>startGame\<close>, \<^verbatim>\<open>togglePause\<close>, \<^verbatim>\<open>restartGame\<close>, \<^verbatim>\<open>nextLevel\<close> and the paddle
  handlers).

  Numbers. Coordinates and velocities are TypeScript \<^verbatim>\<open>number\<close>s and are modelled as
  \<^typ>\<open>real\<close>, so rounding of IEEE doubles is not part of the model. The counters
  \<^verbatim>\<open>score\<close>, \<^verbatim>\<open>lives\<close>, \<^verbatim>\<open>level\<close> and \<^verbatim>\<open>points\<close> only ever hold the integer
  literals of the source and their sums and differences; they are \<^typ>\<open>int\<close>.

  Objects. The updater copies \<^verbatim>\<open>prevState\<close> shallowly and then assigns through the
  copy, so the ball, the velocity and the bricks it writes are the objects of
  \<^verbatim>\<open>prevState\<close>. After the copy every read goes through \<^verbatim>\<open>newState\<close>, the ball, the
  velocity and every brick are distinct objects, and the result is \<^verbatim>\<open>newState\<close>; the
  returned state is therefore a function of the values held on entry, which is what
  the record updates below compute. A run applies each updater to the state that the
  previous one returned.
\<close>

subsection \<open>Game constants\<close>

definition GAME_WIDTH :: real where "GAME_WIDTH = 320"
definition GAME_HEIGHT :: real where "GAME_HEIGHT = 480"
definition PADDLE_WIDTH :: real where "PADDLE_WIDTH = 70"
definition PADDLE_HEIGHT :: real where "PADDLE_HEIGHT = 10"
definition BALL_SIZE :: real where "BALL_SIZE = 12"
definition BRICK_WIDTH :: real where "BRICK_WIDTH = 28"
definition BRICK_HEIGHT :: real where "BRICK_HEIGHT = 18"
definition BRICK_ROWS :: nat where "BRICK_ROWS = 7"
definition BRICK_COLS :: nat where "BRICK_COLS = 10"
definition BRICK_PADDING :: real where "BRICK_PADDING = 2"

subsection \<open>Types\<close>

text \<open>
  \<^verbatim>\<open>Position\<close> and \<^verbatim>\<open>Velocity\<close> are the same structural type \<^verbatim>\<open>{x, y}\<close>; the
  rectangles passed to \<^verbatim>\<open>checkCollision\<close> and the bricks have \<^verbatim>\<open>x\<close> and \<^verbatim>\<open>y\<close> too
  and extend it. The brick's \<^verbatim>\<open>id\<close> is the field \<open>id_brick\<close>.
\<close>

record Position =
  x :: real
  y :: real

type_synonym Velocity = Position

record Rect = Position +
  width :: real
  height :: real

record Brick = Position +
  id_brick :: string
  destroyed :: bool
  color :: string
  points :: int

record GameState =
  paddle :: Position
  ball :: Position
  ballVelocity :: Velocity
  bricks :: "Brick list"
  score :: int
  lives :: int
  gameOver :: bool
  gameWon :: bool
  level :: int
  paused :: bool
  gameStarted :: bool

subsection \<open>The brick field\<close>

definition BRICK_CONFIGS :: "(string \<times> int) list" where
  "BRICK_CONFIGS =
    [(''bg-gradient-to-r from-rose-300 to-rose-400'', 50),
     (''bg-gradient-to-r from-amber-300 to-amber-400'', 40),
     (''bg-gradient-to-r from-emerald-300 to-emerald-400'', 30),
     (''bg-gradient-to-r from-sky-300 to-sky-400'', 25),
     (''bg-gradient-to-r from-violet-300 to-violet-400'', 20),
     (''bg-gradient-to-r from-pink-300 to-pink-400'', 15),
     (''bg-gradient-to-r from-teal-300 to-teal-400'', 10)]"

text \<open>The decimal rendering of a loop index inside the template string of the id.\<close>

function showNat :: "nat \<Rightarrow> string" where
  "showNat n =
    (if n < 10 then [''0123456789'' ! n]
     else showNat (n div 10) @ [''0123456789'' ! (n mod 10)])"
  by pat_completeness auto
termination
  by (relation "measure (\<lambda>n. n)") auto

declare showNat.simps [simp del]

definition startX :: real where
  "startX = (GAME_WIDTH - (real BRICK_COLS * (BRICK_WIDTH + BRICK_PADDING) - BRICK_PADDING)) / 2"

text \<open>The object pushed by the body of the two loops of \<^verbatim>\<open>initializeBricks\<close>.\<close>

definition newBrick :: "nat \<Rightarrow> nat \<Rightarrow> Brick" where
  "newBrick row col =
    (let config = BRICK_CONFIGS ! (row mod length BRICK_CONFIGS) in
     \<lparr> x = startX + real col * (BRICK_WIDTH + BRICK_PADDING),
       y = 50 + real row * (BRICK_HEIGHT + BRICK_PADDING),
       id_brick = showNat row @ ''-'' @ showNat col,
       destroyed = False,
       color = fst config,
       points = snd config \<rparr>)"

definition initializeBricks :: "Brick list" where
  "initializeBricks =
    concat (map (\<lambda>row. map (\<lambda>col. newBrick row col) [0..<BRICK_COLS]) [0..<BRICK_ROWS])"

definition createInitialState :: "int \<Rightarrow> GameState" where
  "createInitialState lvl =
    \<lparr> paddle = \<lparr> x = GAME_WIDTH / 2 - PADDLE_WIDTH / 2, y = GAME_HEIGHT - 40 \<rparr>,
      ball = \<lparr> x = GAME_WIDTH / 2, y = GAME_HEIGHT - 60 \<rparr>,
      ballVelocity = \<lparr> x = 0, y = 0 \<rparr>,
      bricks = initializeBricks,
      score = 0,
      lives = 3,
      gameOver = False,
      gameWon = False,
      level = lvl,
      paused = False,
      gameStarted = False \<rparr>"

subsection \<open>Collision detection\<close>

definition checkCollision :: "Rect \<Rightarrow> Rect \<Rightarrow> bool" where
  "checkCollision obj1 obj2 \<longleftrightarrow>
     x obj1 < x obj2 + width obj2 \<and>
     x obj1 + width obj1 > x obj2 \<and>
     y obj1 < y obj2 + height obj2 \<and>
     y obj1 + height obj1 > y obj2"

text \<open>The three rectangles the step builds: around the ball, the paddle and a brick.\<close>

definition ballRect :: "Position \<Rightarrow> Rect" where
  "ballRect b =
    \<lparr> x = x b - BALL_SIZE / 2, y = y b - BALL_SIZE / 2, width = BALL_SIZE, height = BALL_SIZE \<rparr>"

definition paddleRect :: "Position \<Rightarrow> Rect" where
  "paddleRect p = \<lparr> x = x p, y = y p, width = PADDLE_WIDTH, height = PADDLE_HEIGHT \<rparr>"

definition brickRect :: "Brick \<Rightarrow> Rect" where
  "brickRect brick = \<lparr> x = x brick, y = y brick, width = BRICK_WIDTH, height = BRICK_HEIGHT \<rparr>"

subsection \<open>The simulation step, phase by phase\<close>

text \<open>The early return of the updater is taken exactly when the state is not active.\<close>

definition active :: "GameState \<Rightarrow> bool" where
  "active s \<longleftrightarrow> \<not> (gameOver s \<or> gameWon s \<or> paused s \<or> \<not> gameStarted s)"

definition moveBall :: "GameState \<Rightarrow> GameState" where
  "moveBall s =
    s\<lparr> ball := \<lparr> x = x (ball s) + x (ballVelocity s), y = y (ball s) + y (ballVelocity s) \<rparr> \<rparr>"

definition wallCollision :: "GameState \<Rightarrow> GameState" where
  "wallCollision s =
    (let s1 =
       (if x (ball s) \<le> BALL_SIZE / 2 \<or> x (ball s) \<ge> GAME_WIDTH - BALL_SIZE / 2
        then s\<lparr> ballVelocity := (ballVelocity s)\<lparr> x := - x (ballVelocity s) \<rparr>,
               ball := (ball s)\<lparr> x := max (BALL_SIZE / 2) (min (GAME_WIDTH - BALL_SIZE / 2) (x (ball s))) \<rparr> \<rparr>
        else s)
     in
       if y (ball s1) \<le> BALL_SIZE / 2
       then s1\<lparr> ballVelocity := (ballVelocity s1)\<lparr> y := - y (ballVelocity s1) \<rparr>,
                ball := (ball s1)\<lparr> y := BALL_SIZE / 2 \<rparr> \<rparr>
       else s1)"

definition paddleCollision :: "GameState \<Rightarrow> bool" where
  "paddleCollision s = checkCollision (ballRect (ball s)) (paddleRect (paddle s))"

definition hitPos :: "GameState \<Rightarrow> real" where
  "hitPos s = (x (ball s) - (x (paddle s) + PADDLE_WIDTH / 2)) / (PADDLE_WIDTH / 2)"

definition maxAngle :: real where
  "maxAngle = pi / 3"

definition baseSpeed :: "GameState \<Rightarrow> real" where
  "baseSpeed s = 3 + real_of_int (level s) * 0.5"

definition paddleBounce :: "GameState \<Rightarrow> GameState" where
  "paddleBounce s =
    (if paddleCollision s \<and> y (ballVelocity s) > 0
     then
       let s1 = s\<lparr> ballVelocity := (ballVelocity s)\<lparr> y := - \<bar>y (ballVelocity s)\<bar> \<rparr> \<rparr>;
           angle = hitPos s1 * maxAngle
       in s1\<lparr> ballVelocity :=
                (ballVelocity s1)\<lparr> x := sin angle * baseSpeed s1, y := - cos angle * baseSpeed s1 \<rparr> \<rparr>
     else s)"

text \<open>
  The body of the \<^verbatim>\<open>forEach\<close> over the bricks: the brick it leaves behind, and the
  score and velocity of \<^verbatim>\<open>newState\<close> after it. The ball does not move during the pass.
\<close>

definition brickCollision :: "Position \<Rightarrow> Brick \<Rightarrow> bool" where
  "brickCollision b brick = checkCollision (ballRect b) (brickRect brick)"

definition bounceOff :: "Position \<Rightarrow> Brick \<Rightarrow> Velocity \<Rightarrow> Velocity" where
  "bounceOff b brick v =
    (let dx = x b - (x brick + BRICK_WIDTH / 2);
         dy = y b - (y brick + BRICK_HEIGHT / 2)
     in if \<bar>dx\<bar> > \<bar>dy\<bar> then v\<lparr> x := - x v \<rparr> else v\<lparr> y := - y v \<rparr>)"

fun forEachBrick :: "Position \<Rightarrow> Brick list \<Rightarrow> int \<Rightarrow> Velocity \<Rightarrow> Brick list \<times> int \<times> Velocity" where
  "forEachBrick b [] sc v = ([], sc, v)"
| "forEachBrick b (brick # rest) sc v =
    (if \<not> destroyed brick \<and> brickCollision b brick
     then
       (case forEachBrick b rest (sc + points brick) (bounceOff b brick v) of
          (rest', sc', v') \<Rightarrow> (brick\<lparr> destroyed := True \<rparr> # rest', sc', v'))
     else
       (case forEachBrick b rest sc v of
          (rest', sc', v') \<Rightarrow> (brick # rest', sc', v')))"

definition brickCollisions :: "GameState \<Rightarrow> GameState" where
  "brickCollisions s =
    (case forEachBrick (ball s) (bricks s) (score s) (ballVelocity s) of
       (bricks', score', velocity') \<Rightarrow>
         s\<lparr> bricks := bricks', score := score', ballVelocity := velocity' \<rparr>)"

definition remainingBricks :: "GameState \<Rightarrow> Brick list" where
  "remainingBricks s = filter (\<lambda>brick. \<not> destroyed brick) (bricks s)"

definition winCheck :: "GameState \<Rightarrow> GameState" where
  "winCheck s = (if length (remainingBricks s) = 0 then s\<lparr> gameWon := True \<rparr> else s)"

definition lossCheck :: "GameState \<Rightarrow> GameState" where
  "lossCheck s =
    (if y (ball s) > GAME_HEIGHT
     then
       let s1 = s\<lparr> lives := lives s - 1 \<rparr> in
       if lives s1 \<le> 0
       then s1\<lparr> gameOver := True \<rparr>
       else s1\<lparr> ball := \<lparr> x = GAME_WIDTH / 2, y = GAME_HEIGHT - 60 \<rparr>,
                ballVelocity := \<lparr> x = 0, y = 0 \<rparr>,
                gameStarted := False \<rparr>
     else s)"

definition gameLoop :: "GameState \<Rightarrow> GameState" where
  "gameLoop prevState =
    (if gameOver prevState \<or> gameWon prevState \<or> paused prevState \<or> \<not> gameStarted prevState
     then prevState
     else lossCheck (winCheck (brickCollisions (paddleBounce (wallCollision (moveBall prevState))))))"

subsection \<open>The other updaters of the component\<close>

text \<open>
  \<^verbatim>\<open>startGame\<close> draws its horizontal velocity from \<^verbatim>\<open>Math.random()\<close>, a number in
  \<open>[0, 1)\<close> that is a parameter here. The five pointer handlers all set the paddle
  with the same updater, \<open>dragPaddle\<close>, from the game coordinate of the pointer.
  \<^verbatim>\<open>restartGame\<close> and \<^verbatim>\<open>nextLevel\<close> also record the best score, which is not part of
  the game state.
\<close>

definition startGame :: "real \<Rightarrow> GameState \<Rightarrow> GameState" where
  "startGame random prev =
    prev\<lparr> gameStarted := True,
          ballVelocity := \<lparr> x = (random - 0.5) * 2, y = - (3 + real_of_int (level prev) * 0.5) \<rparr> \<rparr>"

definition togglePause :: "GameState \<Rightarrow> GameState" where
  "togglePause prev = prev\<lparr> paused := \<not> paused prev \<rparr>"

definition dragPaddle :: "real \<Rightarrow> GameState \<Rightarrow> GameState" where
  "dragPaddle gameX prev =
    prev\<lparr> paddle := (paddle prev)\<lparr> x := max 0 (min (GAME_WIDTH - PADDLE_WIDTH) (gameX - PADDLE_WIDTH / 2)) \<rparr> \<rparr>"

definition restartGame :: "GameState" where
  "restartGame = createInitialState 1"

definition nextLevel :: "GameState \<Rightarrow> GameState" where
  "nextLevel prev = (createInitialState (level prev + 1))\<lparr> score := score prev \<rparr>"

subsection \<open>Runs of the game\<close>

text \<open>
  A state is reachable when the component can hold it: the state it is mounted with,
  and every state an updater produces from a reachable one. The handlers call the
  updaters only in some states (the start screen is shown only before a serve, the
  pause button is disabled after the end); the relation below leaves these
  restrictions out, so it contains every state of every real run.
\<close>

datatype Event =
  Tick | StartGame real | TogglePause | DragPaddle real | RestartGame | NextLevel

fun applyEvent :: "Event \<Rightarrow> GameState \<Rightarrow> GameState" where
  "applyEvent Tick s = gameLoop s"
| "applyEvent (StartGame random) s = startGame random s"
| "applyEvent TogglePause s = togglePause s"
| "applyEvent (DragPaddle gameX) s = dragPaddle gameX s"
| "applyEvent RestartGame s = restartGame"
| "applyEvent NextLevel s = nextLevel s"

fun validEvent :: "Event \<Rightarrow> bool" where
  "validEvent (StartGame random) \<longleftrightarrow> 0 \<le> random \<and> random < 1"
| "validEvent _ \<longleftrightarrow> True"

text \<open>The events that keep the brick field of the level: all but the two that build a fresh state.\<close>

fun sameLevel :: "Event \<Rightarrow> bool" where
  "sameLevel RestartGame \<longleftrightarrow> False"
| "sameLevel NextLevel \<longleftrightarrow> False"
| "sameLevel _ \<longleftrightarrow> True"

definition run :: "Event list \<Rightarrow> GameState \<Rightarrow> GameState" where
  "run events s = fold applyEvent events s"

inductive reachable :: "GameState \<Rightarrow> bool" where
  mounted: "reachable (createInitialState 1)"
| event: "reachable s \<Longrightarrow> validEvent e \<Longrightarrow> reachable (applyEvent e s)"

subsection \<open>Notions used to state the properties\<close>

text \<open>A brick is hit by the ball at \<open>b\<close> when the two tests of the loop body pass.\<close>

definition brickHit :: "Position \<Rightarrow> Brick \<Rightarrow> bool" where
  "brickHit b brick \<longleftrightarrow> \<not> destroyed brick \<and> brickCollision b brick"

text \<open>The state in which the paddle test is made, and the test of the paddle branch.\<close>

definition beforePaddle :: "GameState \<Rightarrow> GameState" where
  "beforePaddle s = wallCollision (moveBall s)"

definition paddleBranch :: "GameState \<Rightarrow> bool" where
  "paddleBranch s \<longleftrightarrow> paddleCollision (beforePaddle s) \<and> y (ballVelocity (beforePaddle s)) > 0"

text \<open>The bricks of \<open>bs\<close> that are intact there and destroyed at the same index of \<open>bs'\<close>.\<close>

definition newlyDestroyed :: "Brick list \<Rightarrow> Brick list \<Rightarrow> Brick list" where
  "newlyDestroyed bs bs' =
    map fst (filter (\<lambda>(brick, brick'). \<not> destroyed brick \<and> destroyed brick') (zip bs bs'))"

text \<open>
  What every reachable state satisfies: the bricks are those of \<open>initializeBricks\<close> up
  to their \<open>destroyed\<close> flags, the paddle stays on its line, and the counters and flags
  are related as below.
\<close>

definition intact :: "Brick \<Rightarrow> Brick" where
  "intact brick = brick\<lparr> destroyed := False \<rparr>"

definition invariant :: "GameState \<Rightarrow> bool" where
  "invariant s \<longleftrightarrow>
     map intact (bricks s) = initializeBricks \<and>
     y (paddle s) = GAME_HEIGHT - 40 \<and>
     1 \<le> level s \<and>
     0 \<le> lives s \<and> lives s \<le> 3 \<and>
     (\<not> gameOver s \<longrightarrow> 1 \<le> lives s) \<and>
     (gameWon s \<longleftrightarrow> remainingBricks s = []) \<and>
     \<not> (gameOver s \<and> gameWon s)"

text \<open>
  A list of bricks \<open>bs'\<close> only destroys bricks of \<open>bs\<close> when it has the same bricks, index by
  index, and every brick destroyed in \<open>bs\<close> is destroyed in \<open>bs'\<close>.
\<close>

definition onlyDestroys :: "Brick list \<Rightarrow> Brick list \<Rightarrow> bool" where
  "onlyDestroys bs bs' \<longleftrightarrow>
     list_all2 (\<lambda>brick brick'. intact brick' = intact brick \<and> (destroyed brick \<longrightarrow> destroyed brick')) bs bs'"

subsection \<open>States used as examples\<close>

text \<open>
  The state \<open>serve\<close> is the mounted state after a serve whose random number is
  \<open>0.51\<close>: the ball leaves almost straight up. After 64 ticks it is just below the gap
  between two bricks of the lowest row; this is the state \<open>doubleHit\<close>. The other
  state \<open>lastBrick\<close> is \<open>doubleHit\<close> with every brick destroyed but the left one of
  the two. The remaining states are the mounted state with the ball and its velocity
  set by hand: a ball falling past the bottom edge, a ball falling on
  the paddle at a given abscissa, and a ball falling on the right end of the paddle.
\<close>

definition serve :: GameState where
  "serve = startGame 0.51 (createInitialState 1)"

definition doubleHit :: GameState where
  "doubleHit = (gameLoop ^^ 64) serve"

definition lastBrick :: GameState where
  "lastBrick =
     doubleHit\<lparr> bricks := map (\<lambda>brick. brick\<lparr> destroyed := (id_brick brick \<noteq> ''6-4'') \<rparr>) initializeBricks \<rparr>"

definition ballLost :: "int \<Rightarrow> GameState" where
  "ballLost n = (createInitialState 1)\<lparr> gameStarted := True, ball := \<lparr> x = 100, y = 478 \<rparr>,
      ballVelocity := \<lparr> x = 0, y = 3.5 \<rparr>, lives := n \<rparr>"

definition paddleHitAt :: "real \<Rightarrow> GameState" where
  "paddleHitAt ballX = (createInitialState 1)\<lparr> gameStarted := True,
      ball := \<lparr> x = ballX, y = 434.5 \<rparr>, ballVelocity := \<lparr> x = 0, y = 3.5 \<rparr> \<rparr>"

definition edgeHit :: GameState where
  "edgeHit = (createInitialState 1)\<lparr> gameStarted := True,
      ball := \<lparr> x = 200, y = 434.5 \<rparr>, ballVelocity := \<lparr> x = 0, y = 3.5 \<rparr> \<rparr>"

section \<open>Facts about the phases\<close>

lemmas game_consts =
  GAME_WIDTH_def GAME_HEIGHT_def PADDLE_WIDTH_def PADDLE_HEIGHT_def BALL_SIZE_def
  BRICK_WIDTH_def BRICK_HEIGHT_def BRICK_ROWS_def BRICK_COLS_def BRICK_PADDING_def

subsection \<open>The pass over the bricks\<close>

text \<open>
  The loop leaves the list of the bricks with every hit brick destroyed, adds the
  points of the hit bricks, and applies one bounce for each of them, in order.
\<close>

lemma forEachBrick_bricks:
  "fst (forEachBrick b bs sc v) =
     map (\<lambda>brick. if brickHit b brick then brick\<lparr> destroyed := True \<rparr> else brick) bs"
  by (induction bs arbitrary: sc v) (simp_all add: brickHit_def split_beta)

lemma forEachBrick_score:
  "fst (snd (forEachBrick b bs sc v)) = sc + sum_list (map points (filter (brickHit b) bs))"
  by (induction bs arbitrary: sc v) (simp_all add: brickHit_def split_beta)

lemma forEachBrick_velocity:
  "snd (snd (forEachBrick b bs sc v)) = fold (bounceOff b) (filter (brickHit b) bs) v"
  by (induction bs arbitrary: sc v) (simp_all add: brickHit_def split_beta)

lemma brickCollisions_eq:
  "brickCollisions s =
     s\<lparr> bricks := map (\<lambda>brick. if brickHit (ball s) brick then brick\<lparr> destroyed := True \<rparr> else brick) (bricks s),
        score := score s + sum_list (map points (filter (brickHit (ball s)) (bricks s))),
        ballVelocity := fold (bounceOff (ball s)) (filter (brickHit (ball s)) (bricks s)) (ballVelocity s) \<rparr>"
  using forEachBrick_bricks [of "ball s" "bricks s" "score s" "ballVelocity s"]
    forEachBrick_score [of "ball s" "bricks s" "score s" "ballVelocity s"]
    forEachBrick_velocity [of "ball s" "bricks s" "score s" "ballVelocity s"]
  by (simp add: brickCollisions_def split_beta)

lemma brickCollisions_bricks:
  "bricks (brickCollisions s) =
     map (\<lambda>brick. if brickHit (ball s) brick then brick\<lparr> destroyed := True \<rparr> else brick) (bricks s)"
  by (subst brickCollisions_eq) simp

lemma brickCollisions_score:
  "score (brickCollisions s) = score s + sum_list (map points (filter (brickHit (ball s)) (bricks s)))"
  by (subst brickCollisions_eq) simp

lemma brickCollisions_velocity:
  "ballVelocity (brickCollisions s) =
     fold (bounceOff (ball s)) (filter (brickHit (ball s)) (bricks s)) (ballVelocity s)"
  by (subst brickCollisions_eq) simp

lemma brickCollisions_length [simp]: "length (bricks (brickCollisions s)) = length (bricks s)"
  by (simp add: brickCollisions_bricks)

lemma no_hit_bricks:
  "filter (brickHit b) bs = [] \<Longrightarrow>
     map (\<lambda>brick. if brickHit b brick then brick\<lparr> destroyed := True \<rparr> else brick) bs = bs"
  by (induction bs) (auto split: if_splits)

lemma brickHit_above:
  "brickHit b brick \<Longrightarrow> y b < y brick + BRICK_HEIGHT + BALL_SIZE / 2"
  by (simp add: brickHit_def brickCollision_def checkCollision_def ballRect_def brickRect_def)

subsection \<open>What each phase leaves alone\<close>

lemma beforePaddle_unchanged [simp]:
  "paddle (beforePaddle s) = paddle s" "bricks (beforePaddle s) = bricks s"
  "score (beforePaddle s) = score s" "lives (beforePaddle s) = lives s"
  "gameOver (beforePaddle s) = gameOver s" "gameWon (beforePaddle s) = gameWon s"
  "level (beforePaddle s) = level s" "paused (beforePaddle s) = paused s"
  "gameStarted (beforePaddle s) = gameStarted s"
  by (simp_all add: beforePaddle_def wallCollision_def moveBall_def Let_def)

lemma beforePaddle_ball_y:
  "y (ball (beforePaddle s)) =
     (if y (ball s) + y (ballVelocity s) \<le> BALL_SIZE / 2 then BALL_SIZE / 2
      else y (ball s) + y (ballVelocity s))"
  by (simp add: beforePaddle_def wallCollision_def moveBall_def Let_def)

lemma paddleBounce_unchanged [simp]:
  "paddle (paddleBounce s) = paddle s" "ball (paddleBounce s) = ball s"
  "bricks (paddleBounce s) = bricks s"
  "score (paddleBounce s) = score s" "lives (paddleBounce s) = lives s"
  "gameOver (paddleBounce s) = gameOver s" "gameWon (paddleBounce s) = gameWon s"
  "level (paddleBounce s) = level s" "paused (paddleBounce s) = paused s"
  "gameStarted (paddleBounce s) = gameStarted s"
  by (simp_all add: paddleBounce_def Let_def)

lemma brickCollisions_unchanged [simp]:
  "paddle (brickCollisions s) = paddle s" "ball (brickCollisions s) = ball s"
  "lives (brickCollisions s) = lives s"
  "gameOver (brickCollisions s) = gameOver s" "gameWon (brickCollisions s) = gameWon s"
  "level (brickCollisions s) = level s" "paused (brickCollisions s) = paused s"
  "gameStarted (brickCollisions s) = gameStarted s"
  by (simp_all add: brickCollisions_def split_beta)

lemma winCheck_unchanged [simp]:
  "paddle (winCheck s) = paddle s" "ball (winCheck s) = ball s"
  "ballVelocity (winCheck s) = ballVelocity s" "bricks (winCheck s) = bricks s"
  "score (winCheck s) = score s" "lives (winCheck s) = lives s"
  "gameOver (winCheck s) = gameOver s"
  "level (winCheck s) = level s" "paused (winCheck s) = paused s"
  "gameStarted (winCheck s) = gameStarted s"
  by (simp_all add: winCheck_def)

lemma lossCheck_unchanged [simp]:
  "paddle (lossCheck s) = paddle s" "bricks (lossCheck s) = bricks s"
  "score (lossCheck s) = score s" "gameWon (lossCheck s) = gameWon s"
  "level (lossCheck s) = level s" "paused (lossCheck s) = paused s"
  by (simp_all add: lossCheck_def Let_def)

lemma gameLoop_guard: "\<not> active s \<Longrightarrow> gameLoop s = s"
  by (auto simp: gameLoop_def active_def)

lemma gameLoop_active:
  "active s \<Longrightarrow>
     gameLoop s = lossCheck (winCheck (brickCollisions (paddleBounce (beforePaddle s))))"
  by (auto simp: gameLoop_def active_def beforePaddle_def)

lemma gameLoop_bricks:
  "active s \<Longrightarrow> bricks (gameLoop s) = bricks (brickCollisions (paddleBounce (beforePaddle s)))"
  by (simp add: gameLoop_active)

lemma gameLoop_funpow_guard: "\<not> active s \<Longrightarrow> (gameLoop ^^ n) s = s"
  by (induction n) (simp_all add: gameLoop_guard)

lemma gameWon_winCheck:
  "gameWon (winCheck s) \<longleftrightarrow> gameWon s \<or> remainingBricks s = []"
  by (simp add: winCheck_def)

lemma remainingBricks_cong:
  "bricks s = bricks t \<Longrightarrow> remainingBricks s = remainingBricks t"
  by (simp add: remainingBricks_def)

subsection \<open>The paddle bounce\<close>

lemma hitPos_paddleBounce_aux:
  "hitPos (s\<lparr> ballVelocity := v \<rparr>) = hitPos s" "baseSpeed (s\<lparr> ballVelocity := v \<rparr>) = baseSpeed s"
  by (simp_all add: hitPos_def baseSpeed_def)

lemma paddleBounce_velocity:
  "paddleCollision s \<Longrightarrow> y (ballVelocity s) > 0 \<Longrightarrow>
     ballVelocity (paddleBounce s) =
       \<lparr> x = sin (hitPos s * maxAngle) * baseSpeed s, y = - cos (hitPos s * maxAngle) * baseSpeed s \<rparr>"
  by (simp add: paddleBounce_def Let_def hitPos_paddleBounce_aux)

lemma paddleCollision_ball_y:
  "paddleCollision s \<Longrightarrow>
     y (paddle s) - BALL_SIZE / 2 < y (ball s) \<and> y (ball s) < y (paddle s) + PADDLE_HEIGHT + BALL_SIZE / 2"
  by (auto simp: paddleCollision_def checkCollision_def ballRect_def paddleRect_def)

lemma baseSpeed_beforePaddle [simp]: "baseSpeed (beforePaddle s) = baseSpeed s"
  by (simp add: baseSpeed_def)

subsection \<open>The generated brick field\<close>

lemma upt_BRICK_ROWS: "[0..<BRICK_ROWS] = [0,1,2,3,4,5,6]"
  by (simp add: BRICK_ROWS_def upt_conv_Cons)

lemma upt_BRICK_COLS: "[0..<BRICK_COLS] = [0,1,2,3,4,5,6,7,8,9]"
  by (simp add: BRICK_COLS_def upt_conv_Cons)

lemma startX_eq: "startX = 11"
  by (simp add: startX_def game_consts)

lemma length_initializeBricks: "length initializeBricks = 70"
  by (simp add: initializeBricks_def BRICK_ROWS_def BRICK_COLS_def length_concat comp_def sum_list_triv)

lemma intact_initializeBricks: "map intact initializeBricks = initializeBricks"
  by (simp add: initializeBricks_def map_concat comp_def intact_def newBrick_def Let_def)

lemma set_initializeBricks:
  "brick \<in> set initializeBricks \<Longrightarrow> \<exists>row col. row < BRICK_ROWS \<and> col < BRICK_COLS \<and> brick = newBrick row col"
  by (fastforce simp: initializeBricks_def)

lemma initializeBricks_y:
  "brick \<in> set initializeBricks \<Longrightarrow> y brick + BRICK_HEIGHT \<le> 188"
  by (auto dest!: set_initializeBricks simp: newBrick_def Let_def game_consts)

lemma initializeBricks_points:
  "brick \<in> set initializeBricks \<Longrightarrow> 0 \<le> points brick"
proof -
  assume "brick \<in> set initializeBricks"
  then obtain row col where b: "brick = newBrick row col"
    using set_initializeBricks by blast
  have "\<forall>config \<in> set BRICK_CONFIGS. 0 \<le> snd config"
    by (simp add: BRICK_CONFIGS_def)
  moreover have "BRICK_CONFIGS ! (row mod length BRICK_CONFIGS) \<in> set BRICK_CONFIGS"
    by (rule nth_mem) (simp add: BRICK_CONFIGS_def)
  ultimately show ?thesis
    by (simp add: b newBrick_def Let_def)
qed

lemma remaining_initializeBricks: "filter (\<lambda>brick. \<not> destroyed brick) initializeBricks = initializeBricks"
  by (auto simp: filter_id_conv dest!: set_initializeBricks simp: newBrick_def Let_def)

lemma intact_simps [simp]:
  "x (intact brick) = x brick" "y (intact brick) = y brick" "points (intact brick) = points brick"
  "id_brick (intact brick) = id_brick brick" "color (intact brick) = color brick"
  "\<not> destroyed (intact brick)" "intact (brick\<lparr> destroyed := d \<rparr>) = intact brick"
  by (simp_all add: intact_def)

lemma field_brick:
  assumes "map intact bs = initializeBricks" "brick \<in> set bs"
  shows "y brick + BRICK_HEIGHT \<le> 188" "0 \<le> points brick"
proof -
  have "intact brick \<in> set (map intact bs)"
    using assms(2) by simp
  then have mem: "intact brick \<in> set initializeBricks"
    using assms(1) by simp
  show "y brick + BRICK_HEIGHT \<le> 188"
    using initializeBricks_y [OF mem] by simp
  show "0 \<le> points brick"
    using initializeBricks_points [OF mem] by simp
qed

lemma no_hit_below:
  assumes "map intact bs = initializeBricks" "y b > GAME_HEIGHT"
  shows "filter (brickHit b) bs = []"
proof -
  have "\<not> brickHit b brick" if "brick \<in> set bs" for brick
    using field_brick(1) [OF assms(1) that] brickHit_above [of b brick] assms(2)
    by (auto simp: game_consts)
  then show ?thesis
    by (simp add: filter_empty_conv)
qed

lemma map_intact_hit:
  "map intact (map (\<lambda>brick. if brickHit b brick then brick\<lparr> destroyed := True \<rparr> else brick) bs)
     = map intact bs"
  by (induction bs) auto

lemma showNat_digit: "n < 10 \<Longrightarrow> showNat n = [''0123456789'' ! n]"
  by (simp add: showNat.simps)

lemma digit_inj:
  "m < 10 \<Longrightarrow> n < 10 \<Longrightarrow> ''0123456789'' ! m = ''0123456789'' ! n \<Longrightarrow> m = n"
  using nth_eq_iff_index_eq [of "''0123456789''" m n] by simp

lemma id_brick_inj:
  assumes "row < BRICK_ROWS" "col < BRICK_COLS" "row' < BRICK_ROWS" "col' < BRICK_COLS"
    "id_brick (newBrick row col) = id_brick (newBrick row' col')"
  shows "row = row' \<and> col = col'"
proof -
  have "row < 10" "col < 10" "row' < 10" "col' < 10"
    using assms(1-4) by (simp_all add: game_consts)
  then show ?thesis
    using assms(5) by (auto simp: newBrick_def Let_def showNat_digit dest: digit_inj)
qed

lemma initializeBricks_product:
  "initializeBricks =
     map (\<lambda>(row, col). newBrick row col) (List.product [0..<BRICK_ROWS] [0..<BRICK_COLS])"
  by (simp add: initializeBricks_def product_concat_map map_concat comp_def)

lemma distinct_ids: "distinct (map id_brick initializeBricks)"
proof -
  have "inj_on (\<lambda>p. id_brick (newBrick (fst p) (snd p)))
      (set (List.product [0..<BRICK_ROWS] [0..<BRICK_COLS]))"
    by (rule inj_onI) (auto dest: id_brick_inj)
  then show ?thesis
    by (simp add: initializeBricks_product distinct_map distinct_product comp_def split_beta)
qed

subsection \<open>The invariant holds in every reachable state\<close>

lemma invariant_createInitialState:
  "1 \<le> lvl \<Longrightarrow> invariant (createInitialState lvl)"
  using length_initializeBricks
  by (auto simp: invariant_def createInitialState_def intact_initializeBricks
      remainingBricks_def remaining_initializeBricks)

lemma invariant_gameLoop:
  assumes inv: "invariant s"
  shows "invariant (gameLoop s)"
proof (cases "active s")
  case False
  then show ?thesis
    using inv by (simp add: gameLoop_guard)
next
  case True
  define p where "p = paddleBounce (beforePaddle s)"
  define w where "w = winCheck (brickCollisions p)"
  have step: "gameLoop s = lossCheck w"
    using True by (simp add: gameLoop_active w_def p_def)
  have flags: "\<not> gameOver s" "\<not> gameWon s"
    using True by (auto simp: active_def)
  have field: "map intact (bricks s) = initializeBricks"
    using inv by (simp add: invariant_def)
  have bricks_w: "bricks w =
      map (\<lambda>brick. if brickHit (ball p) brick then brick\<lparr> destroyed := True \<rparr> else brick) (bricks s)"
    by (simp add: w_def brickCollisions_bricks) (simp add: p_def)
  have won: "gameWon w \<longleftrightarrow> remainingBricks w = []"
    using flags
    by (simp add: w_def gameWon_winCheck p_def
        remainingBricks_cong [of "winCheck t" t for t])
  have lives_w: "lives w = lives s" "\<not> gameOver w"
    using flags by (simp_all add: w_def p_def)
  have not_both: "\<not> (gameOver (lossCheck w) \<and> gameWon (lossCheck w))"
  proof
    assume both: "gameOver (lossCheck w) \<and> gameWon (lossCheck w)"
    then have below: "y (ball w) > GAME_HEIGHT"
      using lives_w by (auto simp: lossCheck_def Let_def split: if_splits)
    have "ball w = ball p"
      by (simp add: w_def)
    then have "filter (brickHit (ball p)) (bricks s) = []"
      using no_hit_below [OF field] below by simp
    then have "bricks w = bricks s"
      by (simp add: bricks_w no_hit_bricks)
    then have "remainingBricks w = remainingBricks s"
      by (rule remainingBricks_cong)
    moreover have "remainingBricks s \<noteq> []"
      using inv flags by (simp add: invariant_def)
    ultimately show False
      using both won by simp
  qed
  have "map intact (bricks w) = initializeBricks"
    by (simp only: bricks_w map_intact_hit field)
  then have "map intact (bricks (lossCheck w)) = initializeBricks"
    by simp
  moreover have "y (paddle (lossCheck w)) = GAME_HEIGHT - 40" "1 \<le> level (lossCheck w)"
    using inv by (simp_all add: invariant_def w_def p_def)
  moreover have "0 \<le> lives (lossCheck w) \<and> lives (lossCheck w) \<le> 3 \<and>
      (\<not> gameOver (lossCheck w) \<longrightarrow> 1 \<le> lives (lossCheck w))"
    using inv flags lives_w by (auto simp: invariant_def lossCheck_def Let_def)
  moreover have "gameWon (lossCheck w) \<longleftrightarrow> remainingBricks (lossCheck w) = []"
    using won by (simp add: remainingBricks_cong [of "lossCheck w" w])
  ultimately show ?thesis
    using not_both by (simp add: step invariant_def)
qed

lemma invariant_applyEvent:
  "invariant s \<Longrightarrow> invariant (applyEvent e s)"
proof (cases e)
  case Tick
  then show "invariant s \<Longrightarrow> ?thesis" by (simp add: invariant_gameLoop)
next
  case (StartGame r)
  then show "invariant s \<Longrightarrow> ?thesis"
    by (auto simp: invariant_def startGame_def remainingBricks_def)
next
  case TogglePause
  then show "invariant s \<Longrightarrow> ?thesis"
    by (auto simp: invariant_def togglePause_def remainingBricks_def)
next
  case (DragPaddle g)
  then show "invariant s \<Longrightarrow> ?thesis"
    by (auto simp: invariant_def dragPaddle_def remainingBricks_def)
next
  case RestartGame
  then show "invariant s \<Longrightarrow> ?thesis"
    by (simp add: restartGame_def invariant_createInitialState)
next
  case NextLevel
  assume "invariant s"
  then have "1 \<le> level s + 1" by (simp add: invariant_def)
  from invariant_createInitialState [OF this] show ?thesis
    using NextLevel by (auto simp: nextLevel_def invariant_def remainingBricks_def)
qed

lemma reachable_invariant: "reachable s \<Longrightarrow> invariant s"
  by (induction rule: reachable.induct)
    (simp_all add: invariant_createInitialState invariant_applyEvent)

lemma paddle_tick_velocity:
  assumes inv: "invariant s" and act: "active s" and br: "paddleBranch s"
  shows "ballVelocity (gameLoop s) = ballVelocity (paddleBounce (beforePaddle s))"
proof -
  define p where "p = paddleBounce (beforePaddle s)"
  have field: "map intact (bricks p) = initializeBricks" and py: "y (paddle p) = GAME_HEIGHT - 40"
    using inv by (simp_all add: invariant_def p_def)
  have "paddleCollision (beforePaddle s)"
    using br by (simp add: paddleBranch_def)
  from paddleCollision_ball_y [OF this]
  have by1: "GAME_HEIGHT - 40 - BALL_SIZE / 2 < y (ball p)"
    and by2: "y (ball p) < GAME_HEIGHT - 40 + PADDLE_HEIGHT + BALL_SIZE / 2"
    using py by (simp_all add: p_def)
  have "\<not> brickHit (ball p) brick" if "brick \<in> set (bricks p)" for brick
    using field_brick(1) [OF field that] brickHit_above [of "ball p" brick] by1
    by (auto simp: game_consts)
  then have nohit: "filter (brickHit (ball p)) (bricks p) = []"
    by (simp add: filter_empty_conv)
  have "ballVelocity (brickCollisions p) = ballVelocity p"
    by (simp add: brickCollisions_velocity nohit)
  moreover have "\<not> y (ball (winCheck (brickCollisions p))) > GAME_HEIGHT"
    using by2 by (simp add: game_consts)
  ultimately show ?thesis
    using act by (simp add: gameLoop_active lossCheck_def flip: p_def)
qed

lemma applyEvent_gameOver:
  "gameOver s \<Longrightarrow> sameLevel e \<Longrightarrow>
     gameOver (applyEvent e s) \<and> lives (applyEvent e s) = lives s"
  by (cases e) (simp_all add: gameLoop_def startGame_def togglePause_def dragPaddle_def)

lemma run_gameOver:
  "gameOver s \<Longrightarrow> list_all sameLevel es \<Longrightarrow>
     gameOver (run es s) \<and> lives (run es s) = lives s"
  unfolding run_def
proof (induction es arbitrary: s)
  case Nil
  then show ?case by simp
next
  case (Cons e es)
  from Cons.prems have "gameOver (applyEvent e s)" "lives (applyEvent e s) = lives s"
    "list_all sameLevel es"
    using applyEvent_gameOver [of s e] by simp_all
  with Cons.IH [of "applyEvent e s"] show ?case
    by simp
qed

subsection \<open>Bricks are only ever destroyed\<close>

text \<open>
  The score less the points of the destroyed bricks is the same before and after
  every event that keeps the level.
\<close>

lemma onlyDestroys_refl: "onlyDestroys bs bs"
  by (simp add: onlyDestroys_def list_all2_same)

lemma onlyDestroys_trans:
  "onlyDestroys bs bs' \<Longrightarrow> onlyDestroys bs' bs'' \<Longrightarrow> onlyDestroys bs bs''"
  by (auto simp: onlyDestroys_def list_all2_conv_all_nth)

lemma onlyDestroys_hit:
  "onlyDestroys bs (map (\<lambda>brick. if brickHit b brick then brick\<lparr> destroyed := True \<rparr> else brick) bs)"
  by (simp add: onlyDestroys_def list_all2_map2 list_all2_same)

lemma intact_points: "intact brick' = intact brick \<Longrightarrow> points brick' = points brick"
  by (metis intact_simps(3))

lemma destroyed_points_newly:
  "onlyDestroys bs bs' \<Longrightarrow>
     sum_list (map points (filter destroyed bs')) =
       sum_list (map points (filter destroyed bs)) + sum_list (map points (newlyDestroyed bs bs'))"
  unfolding onlyDestroys_def
  by (induction rule: list_all2_induct) (auto simp: newlyDestroyed_def dest: intact_points)

lemma destroyed_points_hit:
  "sum_list (map points (filter destroyed
       (map (\<lambda>brick. if brickHit b brick then brick\<lparr> destroyed := True \<rparr> else brick) bs))) =
     sum_list (map points (filter destroyed bs)) + sum_list (map points (filter (brickHit b) bs))"
  by (induction bs) (auto simp: brickHit_def)

lemma gameLoop_onlyDestroys:
  "onlyDestroys (bricks s) (bricks (gameLoop s)) \<and>
   score (gameLoop s) - sum_list (map points (filter destroyed (bricks (gameLoop s)))) =
   score s - sum_list (map points (filter destroyed (bricks s)))"
proof (cases "active s")
  case False
  then show ?thesis
    by (simp add: gameLoop_guard onlyDestroys_refl)
next
  case True
  then show ?thesis
    by (simp add: gameLoop_active brickCollisions_bricks brickCollisions_score onlyDestroys_hit
        destroyed_points_hit)
qed

lemma applyEvent_onlyDestroys:
  assumes "sameLevel e"
  shows "onlyDestroys (bricks s) (bricks (applyEvent e s)) \<and>
     score (applyEvent e s) - sum_list (map points (filter destroyed (bricks (applyEvent e s)))) =
     score s - sum_list (map points (filter destroyed (bricks s)))"
  using assms gameLoop_onlyDestroys [of s]
  by (cases e) (simp_all add: startGame_def togglePause_def dragPaddle_def onlyDestroys_refl)

lemma run_onlyDestroys:
  "list_all sameLevel es \<Longrightarrow>
     onlyDestroys (bricks s) (bricks (run es s)) \<and>
     score (run es s) - sum_list (map points (filter destroyed (bricks (run es s)))) =
     score s - sum_list (map points (filter destroyed (bricks s)))"
  unfolding run_def
proof (induction es arbitrary: s)
  case Nil
  then show ?case
    by (simp add: onlyDestroys_refl)
next
  case (Cons e es)
  then have e: "sameLevel e" and es: "list_all sameLevel es"
    by simp_all
  show ?case
    using applyEvent_onlyDestroys [OF e, of s] Cons.IH [OF es, of "applyEvent e s"]
    by (auto intro: onlyDestroys_trans)
qed

subsection \<open>The example states\<close>

text \<open>
  A ball that moves up, below the bricks and between the walls, only moves; so the
  serve of \<open>serve\<close> flies freely for 64 ticks.
\<close>

lemma reachable_funpow: "reachable s \<Longrightarrow> reachable ((gameLoop ^^ n) s)"
proof (induction n)
  case 0
  then show ?case by simp
next
  case (Suc n)
  then have "reachable (applyEvent Tick ((gameLoop ^^ n) s))"
    by (intro reachable.event) simp_all
  then show ?case by simp
qed

lemma reachable_serve: "reachable serve"
proof -
  have "reachable (applyEvent (StartGame 0.51) (createInitialState 1))"
    by (intro reachable.intros) simp_all
  then show ?thesis
    by (simp add: serve_def)
qed

lemma free_flight:
  assumes inv: "invariant s" and act: "active s"
    and up: "y (ballVelocity s) \<le> 0"
    and left: "BALL_SIZE / 2 < x (ball s) + x (ballVelocity s)"
    and right: "x (ball s) + x (ballVelocity s) < GAME_WIDTH - BALL_SIZE / 2"
    and below: "194 \<le> y (ball s) + y (ballVelocity s)"
    and inside: "y (ball s) + y (ballVelocity s) \<le> GAME_HEIGHT"
  shows "gameLoop s =
    s\<lparr> ball := \<lparr> x = x (ball s) + x (ballVelocity s), y = y (ball s) + y (ballVelocity s) \<rparr> \<rparr>"
proof -
  define m where "m = s\<lparr> ball := \<lparr> x = x (ball s) + x (ballVelocity s), y = y (ball s) + y (ballVelocity s) \<rparr> \<rparr>"
  have bp: "beforePaddle s = m"
    using left right below
    by (simp add: beforePaddle_def wallCollision_def moveBall_def Let_def m_def game_consts)
  have pb: "paddleBounce m = m"
    using up by (simp add: paddleBounce_def m_def)
  have field: "map intact (bricks m) = initializeBricks"
    using inv by (simp add: invariant_def m_def)
  have "\<not> brickHit (ball m) brick" if "brick \<in> set (bricks m)" for brick
    using field_brick(1) [OF field that] brickHit_above [of "ball m" brick] below
    by (auto simp: game_consts m_def)
  then have nohit: "filter (brickHit (ball m)) (bricks m) = []"
    by (simp add: filter_empty_conv)
  have bc: "brickCollisions m = m"
    by (subst brickCollisions_eq) (simp add: nohit no_hit_bricks)
  have "remainingBricks m \<noteq> []"
    using inv act by (simp add: invariant_def active_def remainingBricks_def m_def)
  then have wc: "winCheck m = m"
    by (simp add: winCheck_def)
  have lc: "lossCheck m = m"
    using inside by (simp add: lossCheck_def m_def)
  show ?thesis
    using act by (simp add: gameLoop_active bp pb bc wc lc flip: m_def)
qed

lemma serve_flight:
  "n \<le> 64 \<Longrightarrow>
     (gameLoop ^^ n) serve = serve\<lparr> ball := \<lparr> x = 160 + real n * 0.02, y = 420 - real n * 3.5 \<rparr> \<rparr>"
proof (induction n)
  case 0
  show ?case
    by (simp add: serve_def startGame_def createInitialState_def game_consts)
next
  case (Suc n)
  define s where "s = (gameLoop ^^ n) serve"
  have s: "s = serve\<lparr> ball := \<lparr> x = 160 + real n * 0.02, y = 420 - real n * 3.5 \<rparr> \<rparr>"
    using Suc by (simp add: s_def)
  have inv: "invariant s"
    unfolding s_def by (intro reachable_invariant reachable_funpow reachable_serve)
  have act: "active s"
    by (simp add: s active_def serve_def startGame_def createInitialState_def)
  have v: "ballVelocity s = \<lparr> x = 0.02, y = - 3.5 \<rparr>"
    by (simp add: s serve_def startGame_def createInitialState_def)
  have b: "ball s = \<lparr> x = 160 + real n * 0.02, y = 420 - real n * 3.5 \<rparr>"
    by (simp add: s)
  have n: "real n \<le> 63"
    using Suc.prems by simp
  have step: "gameLoop s =
      s\<lparr> ball := \<lparr> x = x (ball s) + x (ballVelocity s), y = y (ball s) + y (ballVelocity s) \<rparr> \<rparr>"
    using n by (intro free_flight inv act) (simp_all add: v b game_consts)
  have pos: "\<lparr> x = x (ball s) + x (ballVelocity s), y = y (ball s) + y (ballVelocity s) \<rparr> =
      \<lparr> x = 160 + real (Suc n) * 0.02, y = 420 - real (Suc n) * 3.5 \<rparr>"
    by (simp add: v b field_simps)
  have "gameLoop s = serve\<lparr> ball := \<lparr> x = 160 + real (Suc n) * 0.02, y = 420 - real (Suc n) * 3.5 \<rparr> \<rparr>"
    unfolding step pos by (simp add: s)
  then show ?case
    by (simp add: s_def)
qed

lemma doubleHit_eq: "doubleHit = serve\<lparr> ball := \<lparr> x = 161.28, y = 196 \<rparr> \<rparr>"
  using serve_flight [of 64] by (simp add: doubleHit_def)

lemma reachable_doubleHit: "reachable doubleHit"
  unfolding doubleHit_def by (intro reachable_funpow reachable_serve)

lemma doubleHit_fields:
  "ball doubleHit = \<lparr> x = 161.28, y = 196 \<rparr>" "ballVelocity doubleHit = \<lparr> x = 0.02, y = - 3.5 \<rparr>"
  "bricks doubleHit = initializeBricks" "score doubleHit = 0" "lives doubleHit = 3"
  "paddle doubleHit = \<lparr> x = 125, y = 440 \<rparr>"
  "\<not> gameOver doubleHit" "\<not> gameWon doubleHit" "\<not> paused doubleHit" "gameStarted doubleHit"
  "level doubleHit = 1"
  by (simp_all add: doubleHit_eq serve_def startGame_def createInitialState_def game_consts)

lemma doubleHit_before: "ball (beforePaddle doubleHit) = \<lparr> x = 1613 / 10, y = 385 / 2 \<rparr>"
  by (simp add: beforePaddle_def wallCollision_def moveBall_def Let_def doubleHit_fields game_consts)

lemma doubleHit_no_paddle: "paddleBounce (beforePaddle doubleHit) = beforePaddle doubleHit"
  by (simp add: paddleBounce_def paddleCollision_def checkCollision_def ballRect_def paddleRect_def
      doubleHit_before doubleHit_fields game_consts)

lemma doubleHit_velocity: "ballVelocity (beforePaddle doubleHit) = \<lparr> x = 0.02, y = - 3.5 \<rparr>"
  by (simp add: beforePaddle_def wallCollision_def moveBall_def Let_def doubleHit_fields game_consts)

lemma doubleHit_hits:
  "filter (brickHit \<lparr> x = 1613 / 10, y = 385 / 2 \<rparr>) initializeBricks = [newBrick 6 4, newBrick 6 5]"
  by (simp add: initializeBricks_def upt_BRICK_ROWS upt_BRICK_COLS brickHit_def brickCollision_def checkCollision_def
      ballRect_def brickRect_def newBrick_def Let_def startX_eq BRICK_WIDTH_def BRICK_HEIGHT_def
      BRICK_PADDING_def BALL_SIZE_def)

lemma bounceOff_64_65:
  "bounceOff \<lparr> x = 1613 / 10, y = 385 / 2 \<rparr> (newBrick 6 4) v = v\<lparr> x := - x v \<rparr>"
  "bounceOff \<lparr> x = 1613 / 10, y = 385 / 2 \<rparr> (newBrick 6 5) v = v\<lparr> x := - x v \<rparr>"
  by (simp_all add: bounceOff_def newBrick_def Let_def startX_eq BRICK_WIDTH_def BRICK_HEIGHT_def
      BRICK_PADDING_def)

lemma initializeBricks_64_65:
  "initializeBricks ! 64 = newBrick 6 4" "initializeBricks ! 65 = newBrick 6 5"
  by (simp_all add: initializeBricks_def upt_BRICK_ROWS upt_BRICK_COLS)

lemma doubleHit_tick:
  "bricks (gameLoop doubleHit) =
     map (\<lambda>brick. if brickHit \<lparr> x = 1613 / 10, y = 385 / 2 \<rparr> brick then brick\<lparr> destroyed := True \<rparr> else brick)
       initializeBricks"
  "score (gameLoop doubleHit) = 20"
  "\<not> paused (gameLoop doubleHit)"
proof -
  have a: "active doubleHit"
    by (simp add: active_def doubleHit_fields)
  show "bricks (gameLoop doubleHit) =
     map (\<lambda>brick. if brickHit \<lparr> x = 1613 / 10, y = 385 / 2 \<rparr> brick then brick\<lparr> destroyed := True \<rparr> else brick)
       initializeBricks"
    using a by (simp add: gameLoop_active brickCollisions_bricks doubleHit_before doubleHit_fields)
  have "sum_list (map points [newBrick 6 4, newBrick 6 5]) = 20"
    by (simp add: newBrick_def BRICK_CONFIGS_def)
  then show "score (gameLoop doubleHit) = 20"
    using a
    by (simp add: gameLoop_active brickCollisions_score doubleHit_before doubleHit_fields doubleHit_hits)
  show "\<not> paused (gameLoop doubleHit)"
    using a by (simp add: gameLoop_active doubleHit_fields)
qed

lemma doubleHit_newlyDestroyed:
  "map id_brick (newlyDestroyed initializeBricks
     (map (\<lambda>brick. if brickHit \<lparr> x = 1613 / 10, y = 385 / 2 \<rparr> brick then brick\<lparr> destroyed := True \<rparr> else brick)
       initializeBricks)) = [''6-4'', ''6-5'']"
  by (simp add: newlyDestroyed_def initializeBricks_def upt_BRICK_ROWS upt_BRICK_COLS brickHit_def
      brickCollision_def checkCollision_def ballRect_def brickRect_def newBrick_def Let_def startX_eq
      BRICK_WIDTH_def BRICK_HEIGHT_def BRICK_PADDING_def BALL_SIZE_def showNat_digit)

lemma lastBrick_before: "ball (beforePaddle lastBrick) = \<lparr> x = 1613 / 10, y = 385 / 2 \<rparr>"
  by (simp add: beforePaddle_def wallCollision_def moveBall_def Let_def lastBrick_def
      doubleHit_fields game_consts)

lemma lastBrick_remaining:
  "filter (\<lambda>brick. \<not> destroyed brick)
     (map (\<lambda>brick. brick\<lparr> destroyed := (id_brick brick \<noteq> ''6-4'') \<rparr>) initializeBricks) = [newBrick 6 4]"
  by (simp add: initializeBricks_def upt_BRICK_ROWS upt_BRICK_COLS newBrick_def Let_def showNat_digit)

lemma lastBrick_after:
  "filter (\<lambda>brick. \<not> destroyed brick)
     (map (\<lambda>brick. if brickHit \<lparr> x = 1613 / 10, y = 385 / 2 \<rparr> brick then brick\<lparr> destroyed := True \<rparr> else brick)
       (map (\<lambda>brick. brick\<lparr> destroyed := (id_brick brick \<noteq> ''6-4'') \<rparr>) initializeBricks)) = []"
  by (simp add: initializeBricks_def upt_BRICK_ROWS upt_BRICK_COLS brickHit_def
      brickCollision_def checkCollision_def ballRect_def brickRect_def newBrick_def Let_def startX_eq
      BRICK_WIDTH_def BRICK_HEIGHT_def BRICK_PADDING_def BALL_SIZE_def showNat_digit)

lemma edgeHit_before:
  "beforePaddle edgeHit = edgeHit\<lparr> ball := \<lparr> x = 200, y = 438 \<rparr> \<rparr>"
  by (simp add: edgeHit_def beforePaddle_def wallCollision_def moveBall_def Let_def
      createInitialState_def game_consts)

section \<open>The properties of the simulation step\<close>

subsection \<open>The guard\<close>

text \<open>
  C1. When the game has not started, or is paused, or is over, or is won, one
  invocation of the step returns its argument: the output state is the input state,
  field by field.
\<close>

theorem gameLoop_guard_noop:
  "gameOver s \<or> gameWon s \<or> paused s \<or> \<not> gameStarted s \<Longrightarrow> gameLoop s = s"
  by (simp add: gameLoop_def)

theorem gameLoop_guard_noop_witness:
  "\<not> gameStarted (createInitialState 1) \<and> gameLoop (createInitialState 1) = createInitialState 1
   \<and> paused (togglePause doubleHit) \<and> gameLoop (togglePause doubleHit) = togglePause doubleHit
   \<and> gameOver (doubleHit\<lparr> gameOver := True \<rparr>)
   \<and> gameLoop (doubleHit\<lparr> gameOver := True \<rparr>) = doubleHit\<lparr> gameOver := True \<rparr>
   \<and> gameWon (doubleHit\<lparr> gameWon := True \<rparr>)
   \<and> gameLoop (doubleHit\<lparr> gameWon := True \<rparr>) = doubleHit\<lparr> gameWon := True \<rparr>"
  using gameLoop_guard_noop [of "createInitialState 1"]
    gameLoop_guard_noop [of "togglePause doubleHit"]
    gameLoop_guard_noop [of "doubleHit\<lparr> gameOver := True \<rparr>"]
    gameLoop_guard_noop [of "doubleHit\<lparr> gameWon := True \<rparr>"]
  by (simp add: createInitialState_def togglePause_def doubleHit_fields)

subsection \<open>Losing the ball\<close>

text \<open>
  C2. On an active tick, let the ball's ordinate after the move be
  \<open>y (ball s) + y (ballVelocity s)\<close>. If it exceeds \<open>GAME_HEIGHT\<close>, the step
  takes one life; when no life is left it sets \<open>gameOver\<close>, and otherwise it puts the
  ball on its serve position \<open>(GAME_WIDTH / 2, GAME_HEIGHT - 60)\<close>, stops it and clears
  \<open>gameStarted\<close>. If it does not exceed \<open>GAME_HEIGHT\<close>, then \<open>lives\<close>, \<open>gameOver\<close>
  and \<open>gameStarted\<close> are as before the step.
\<close>

theorem gameLoop_loss_check:
  assumes "active s"
  shows "(y (ball s) + y (ballVelocity s) > GAME_HEIGHT \<longrightarrow>
            lives (gameLoop s) = lives s - 1 \<and>
            (lives s - 1 \<le> 0 \<longrightarrow> gameOver (gameLoop s)) \<and>
            (\<not> lives s - 1 \<le> 0 \<longrightarrow>
               ball (gameLoop s) = \<lparr> x = GAME_WIDTH / 2, y = GAME_HEIGHT - 60 \<rparr> \<and>
               ballVelocity (gameLoop s) = \<lparr> x = 0, y = 0 \<rparr> \<and>
               \<not> gameStarted (gameLoop s)))
       \<and> (\<not> y (ball s) + y (ballVelocity s) > GAME_HEIGHT \<longrightarrow>
            lives (gameLoop s) = lives s \<and>
            gameOver (gameLoop s) = gameOver s \<and>
            gameStarted (gameLoop s) = gameStarted s)"
  using assms
  by (simp add: gameLoop_active lossCheck_def Let_def beforePaddle_ball_y game_consts)

theorem gameLoop_loss_check_witness:
  "active (ballLost 1) \<and> lives (gameLoop (ballLost 1)) = 0 \<and> gameOver (gameLoop (ballLost 1))
   \<and> active (ballLost 3) \<and> lives (gameLoop (ballLost 3)) = 2
   \<and> ball (gameLoop (ballLost 3)) = \<lparr> x = 160, y = 420 \<rparr>
   \<and> ballVelocity (gameLoop (ballLost 3)) = \<lparr> x = 0, y = 0 \<rparr>
   \<and> \<not> gameStarted (gameLoop (ballLost 3))
   \<and> active doubleHit \<and> lives (gameLoop doubleHit) = 3 \<and> \<not> gameOver (gameLoop doubleHit)
   \<and> gameStarted (gameLoop doubleHit)"
  using gameLoop_loss_check [of "ballLost 1"] gameLoop_loss_check [of "ballLost 3"]
    gameLoop_loss_check [of doubleHit]
  by (simp add: ballLost_def doubleHit_fields active_def createInitialState_def game_consts)

subsection \<open>Winning\<close>

text \<open>
  C3. On an active tick over a brick field that is not empty, \<open>gameWon\<close> is true
  after the step exactly when no brick is left intact by the pass over the bricks of
  this tick (and the bricks of the output state are those left by the pass). In every
  reachable state the field has its \<open>7 \<times> 10\<close> bricks and \<open>gameWon\<close> holds exactly
  when none of them is intact: along a run, the flag is raised by the tick that
  destroys the last brick and by no earlier one.
\<close>

theorem gameLoop_win_check:
  "(active s \<and> bricks s \<noteq> [] \<longrightarrow>
      (gameWon (gameLoop s) \<longleftrightarrow>
         length (remainingBricks (brickCollisions (paddleBounce (beforePaddle s)))) = 0) \<and>
      remainingBricks (gameLoop s) = remainingBricks (brickCollisions (paddleBounce (beforePaddle s))))
   \<and> (reachable t \<longrightarrow>
        length (bricks t) = BRICK_ROWS * BRICK_COLS \<and>
        (gameWon t \<longleftrightarrow> length (remainingBricks t) = 0))"
proof (intro conjI impI)
  assume a: "active s \<and> bricks s \<noteq> []"
  then have "\<not> gameWon s"
    by (simp add: active_def)
  then show "gameWon (gameLoop s) \<longleftrightarrow>
      length (remainingBricks (brickCollisions (paddleBounce (beforePaddle s)))) = 0"
    using a by (simp add: gameLoop_active gameWon_winCheck)
  show "remainingBricks (gameLoop s) = remainingBricks (brickCollisions (paddleBounce (beforePaddle s)))"
    using a by (simp add: remainingBricks_def gameLoop_bricks)
next
  assume "reachable t"
  then have inv: "invariant t"
    by (rule reachable_invariant)
  then have "length (map intact (bricks t)) = length initializeBricks"
    by (simp add: invariant_def)
  then show "length (bricks t) = BRICK_ROWS * BRICK_COLS"
    by (simp add: length_initializeBricks game_consts)
  show "gameWon t \<longleftrightarrow> length (remainingBricks t) = 0"
    using inv by (simp add: invariant_def)
qed

theorem gameLoop_win_check_witness:
  "active lastBrick \<and> bricks lastBrick \<noteq> []
   \<and> \<not> gameWon lastBrick \<and> length (remainingBricks lastBrick) = 1
   \<and> gameWon (gameLoop lastBrick) \<and> remainingBricks (gameLoop lastBrick) = []
   \<and> reachable (createInitialState 1)
   \<and> length (bricks (createInitialState 1)) = 70
   \<and> \<not> gameWon (createInitialState 1)
   \<and> length (remainingBricks (createInitialState 1)) \<noteq> 0"
proof -
  have a: "active lastBrick \<and> \<not> gameWon lastBrick"
    by (simp add: lastBrick_def active_def doubleHit_fields)
  have ne: "bricks lastBrick \<noteq> []"
    using length_initializeBricks by (auto simp: lastBrick_def)
  have one: "length (remainingBricks lastBrick) = 1"
    by (simp add: remainingBricks_def lastBrick_def lastBrick_remaining)
  have b: "bricks lastBrick =
      map (\<lambda>brick. brick\<lparr> destroyed := (id_brick brick \<noteq> ''6-4'') \<rparr>) initializeBricks"
    by (simp add: lastBrick_def)
  have r: "remainingBricks (brickCollisions (paddleBounce (beforePaddle lastBrick))) = []"
    by (simp add: remainingBricks_def brickCollisions_bricks lastBrick_before)
      (simp only: b lastBrick_after)
  have g: "\<not> gameWon (createInitialState 1)"
    by (simp add: createInitialState_def)
  show ?thesis
    using gameLoop_win_check [of lastBrick "createInitialState 1"] a ne one r g reachable.mounted
    by (simp add: game_consts)
qed

text \<open>
  The step does not look at the length of the brick list: were the field empty, an
  active tick would set \<open>gameWon\<close>. No reachable state has an empty field.
\<close>

lemma gameLoop_empty_field:
  "active s \<Longrightarrow> bricks s = [] \<Longrightarrow> gameWon (gameLoop s)"
  by (simp add: gameLoop_active gameWon_winCheck remainingBricks_def brickCollisions_bricks)

subsection \<open>The bounce off the paddle\<close>

text \<open>
  C4. On an active tick where the paddle branch is taken (the ball's rectangle
  overlaps the paddle's and the ball moves down), the velocity after the bounce is
  \<open>baseSpeed * (sin (hitPos * maxAngle), - cos (hitPos * maxAngle))\<close>, where \<open>hitPos\<close> is
  the offset of the ball from the centre of the paddle divided by half the paddle's
  width and \<open>baseSpeed\<close> is \<open>3 + level * 0.5\<close>. A hit at the centre (\<open>hitPos = 0\<close>)
  leaves no horizontal velocity and, the level being at least 1, sends the ball up; a
  hit at \<open>hitPos = 1\<close> or \<open>- 1\<close> sends it at the angle \<open>maxAngle\<close> from the vertical,
  to the right or to the left. In a state that satisfies the invariant of the reachable
  states the level is at least 1 and this velocity is the velocity of the output state,
  since no brick and no loss can interfere in the same tick.
\<close>

theorem paddle_bounce_angle:
  assumes "active s" "paddleBranch s"
  shows "ballVelocity (paddleBounce (beforePaddle s)) =
           \<lparr> x = sin (hitPos (beforePaddle s) * maxAngle) * baseSpeed s,
             y = - cos (hitPos (beforePaddle s) * maxAngle) * baseSpeed s \<rparr>
       \<and> (hitPos (beforePaddle s) = 0 \<longrightarrow>
            x (ballVelocity (paddleBounce (beforePaddle s))) = 0 \<and>
            (1 \<le> level s \<longrightarrow> y (ballVelocity (paddleBounce (beforePaddle s))) < 0))
       \<and> (hitPos (beforePaddle s) = 1 \<longrightarrow>
            ballVelocity (paddleBounce (beforePaddle s)) =
              \<lparr> x = sin maxAngle * baseSpeed s, y = - cos maxAngle * baseSpeed s \<rparr>)
       \<and> (hitPos (beforePaddle s) = - 1 \<longrightarrow>
            ballVelocity (paddleBounce (beforePaddle s)) =
              \<lparr> x = - sin maxAngle * baseSpeed s, y = - cos maxAngle * baseSpeed s \<rparr>)
       \<and> (invariant s \<longrightarrow>
            1 \<le> level s \<and> ballVelocity (gameLoop s) = ballVelocity (paddleBounce (beforePaddle s)))"
proof -
  have v: "ballVelocity (paddleBounce (beforePaddle s)) =
           \<lparr> x = sin (hitPos (beforePaddle s) * maxAngle) * baseSpeed s,
             y = - cos (hitPos (beforePaddle s) * maxAngle) * baseSpeed s \<rparr>"
    using assms(2) paddleBounce_velocity [of "beforePaddle s"] by (simp add: paddleBranch_def)
  have t: "ballVelocity (gameLoop s) = ballVelocity (paddleBounce (beforePaddle s))"
    if "invariant s"
    using that assms by (rule paddle_tick_velocity)
  have l: "1 \<le> level s" if "invariant s"
    using that by (simp add: invariant_def)
  have pos: "0 < baseSpeed s" if "1 \<le> level s"
    using that by (simp add: baseSpeed_def)
  show ?thesis
    using v t l pos by simp
qed

theorem paddle_bounce_angle_witness:
  "invariant (paddleHitAt 160) \<and> active (paddleHitAt 160) \<and> paddleBranch (paddleHitAt 160)
   \<and> hitPos (beforePaddle (paddleHitAt 160)) = 0
   \<and> ballVelocity (gameLoop (paddleHitAt 160)) = \<lparr> x = 0, y = - 3.5 \<rparr>
   \<and> invariant (paddleHitAt 195) \<and> active (paddleHitAt 195) \<and> paddleBranch (paddleHitAt 195)
   \<and> hitPos (beforePaddle (paddleHitAt 195)) = 1
   \<and> ballVelocity (gameLoop (paddleHitAt 195)) = \<lparr> x = sqrt 3 / 2 * 3.5, y = - 1.75 \<rparr>
   \<and> invariant (paddleHitAt 125) \<and> active (paddleHitAt 125) \<and> paddleBranch (paddleHitAt 125)
   \<and> hitPos (beforePaddle (paddleHitAt 125)) = - 1
   \<and> ballVelocity (gameLoop (paddleHitAt 125)) = \<lparr> x = - (sqrt 3 / 2 * 3.5), y = - 1.75 \<rparr>"
proof -
  have inv: "invariant (paddleHitAt c)" for c
    using invariant_createInitialState [of 1]
    by (simp add: invariant_def paddleHitAt_def remainingBricks_def) (simp add: createInitialState_def)
  have act: "active (paddleHitAt c)" for c
    by (simp add: active_def paddleHitAt_def createInitialState_def)
  have before: "beforePaddle (paddleHitAt c) = (paddleHitAt c)\<lparr> ball := \<lparr> x = c, y = 438 \<rparr> \<rparr>"
    if "6 < c" "c < 314" for c
    using that
    by (simp add: paddleHitAt_def beforePaddle_def wallCollision_def moveBall_def Let_def
        createInitialState_def game_consts)
  have br: "paddleBranch (paddleHitAt c)" if "119 < c" "c < 201" for c
    using that
    by (simp add: paddleBranch_def before paddleCollision_def checkCollision_def ballRect_def paddleRect_def)
      (simp add: paddleHitAt_def createInitialState_def game_consts)
  have hp: "hitPos (beforePaddle (paddleHitAt c)) = (c - 160) / 35" if "6 < c" "c < 314" for c
    using that by (simp add: before hitPos_def) (simp add: paddleHitAt_def createInitialState_def game_consts)
  have sp: "baseSpeed (paddleHitAt c) = 3.5" for c
    by (simp add: baseSpeed_def paddleHitAt_def createInitialState_def)
  show ?thesis
    using paddle_bounce_angle [OF act br, of 160] paddle_bounce_angle [OF act br, of 195]
      paddle_bounce_angle [OF act br, of 125] inv act br [of 160] br [of 195] br [of 125]
    by (simp add: hp sp maxAngle_def sin_60 cos_60)
qed

text \<open>
  C7 (counterexample to the bound \<open>[-1, 1]\<close>). The paddle branch is taken as soon
  as the rectangle of the ball overlaps the paddle, and the centre of the ball can then
  be up to half a ball beside the paddle. In the state \<open>edgeHit\<close> the ball comes down
  5 pixels right of the paddle's right end: the branch is taken, \<open>hitPos\<close> is \<open>8 / 7\<close>
  and the magnitude of the angle exceeds \<open>maxAngle\<close>.
\<close>

theorem hitPos_exceeds_one:
  "active edgeHit \<and> paddleBranch edgeHit
   \<and> hitPos (beforePaddle edgeHit) = 8 / 7
   \<and> 1 < hitPos (beforePaddle edgeHit)
   \<and> maxAngle < \<bar>hitPos (beforePaddle edgeHit) * maxAngle\<bar>"
proof -
  have a: "active edgeHit"
    by (simp add: active_def edgeHit_def createInitialState_def)
  have b: "paddleBranch edgeHit"
    by (simp add: paddleBranch_def edgeHit_before paddleCollision_def checkCollision_def
        ballRect_def paddleRect_def)
      (simp add: edgeHit_def createInitialState_def game_consts)
  have h: "hitPos (beforePaddle edgeHit) = 8 / 7"
    by (simp add: edgeHit_before hitPos_def) (simp add: edgeHit_def createInitialState_def game_consts)
  have "0 < maxAngle"
    by (simp add: maxAngle_def)
  then have "maxAngle < \<bar>8 / 7 * maxAngle\<bar>"
    by (simp add: abs_mult)
  then have "maxAngle < \<bar>hitPos (beforePaddle edgeHit) * maxAngle\<bar>"
    by (simp only: h)
  moreover have "1 < hitPos (beforePaddle edgeHit)"
    by (simp add: h)
  ultimately show ?thesis
    using a b h by blast
qed

text \<open>
  C7. On an active tick where the paddle branch is taken, \<open>hitPos\<close> lies strictly
  between \<open>- (1 + BALL_SIZE / PADDLE_WIDTH)\<close> and \<open>1 + BALL_SIZE / PADDLE_WIDTH\<close> (that is
  \<open>41 / 35\<close>), so the magnitude of the bounce angle is below
  \<open>(1 + BALL_SIZE / PADDLE_WIDTH) * maxAngle\<close>; and \<open>hitPos\<close> is in \<open>[-1, 1]\<close> exactly
  when the centre of the ball is horizontally within the paddle.
\<close>

theorem hitPos_bound:
  assumes "active s" "paddleBranch s"
  shows "- (1 + BALL_SIZE / PADDLE_WIDTH) < hitPos (beforePaddle s)
       \<and> hitPos (beforePaddle s) < 1 + BALL_SIZE / PADDLE_WIDTH
       \<and> \<bar>hitPos (beforePaddle s) * maxAngle\<bar> < (1 + BALL_SIZE / PADDLE_WIDTH) * maxAngle
       \<and> (- 1 \<le> hitPos (beforePaddle s) \<and> hitPos (beforePaddle s) \<le> 1 \<longleftrightarrow>
            x (paddle s) \<le> x (ball (beforePaddle s)) \<and>
            x (ball (beforePaddle s)) \<le> x (paddle s) + PADDLE_WIDTH)"
proof -
  define p where "p = beforePaddle s"
  have c: "x (paddle p) - BALL_SIZE / 2 < x (ball p)" "x (ball p) < x (paddle p) + PADDLE_WIDTH + BALL_SIZE / 2"
    using assms(2)
    by (auto simp: paddleBranch_def paddleCollision_def checkCollision_def ballRect_def
        paddleRect_def p_def)
  have lo: "- (1 + BALL_SIZE / PADDLE_WIDTH) < hitPos p" and hi: "hitPos p < 1 + BALL_SIZE / PADDLE_WIDTH"
    using c by (simp_all add: hitPos_def game_consts field_simps)
  have "0 < maxAngle"
    by (simp add: maxAngle_def)
  moreover have "\<bar>hitPos p\<bar> < 1 + BALL_SIZE / PADDLE_WIDTH"
    using lo hi by (simp add: abs_less_iff)
  ultimately have ang: "\<bar>hitPos p * maxAngle\<bar> < (1 + BALL_SIZE / PADDLE_WIDTH) * maxAngle"
    by (simp add: abs_mult)
  have "- 1 \<le> hitPos p \<and> hitPos p \<le> 1 \<longleftrightarrow>
      x (paddle p) \<le> x (ball p) \<and> x (ball p) \<le> x (paddle p) + PADDLE_WIDTH"
    by (simp add: hitPos_def game_consts field_simps)
  then show ?thesis
    using lo hi ang by (simp add: p_def)
qed

theorem hitPos_bound_witness:
  "active edgeHit \<and> paddleBranch edgeHit
   \<and> hitPos (beforePaddle edgeHit) < 41 / 35
   \<and> \<bar>hitPos (beforePaddle edgeHit) * (pi / 3)\<bar> < 41 / 35 * (pi / 3)"
proof -
  have a: "active edgeHit"
    by (simp add: active_def edgeHit_def createInitialState_def)
  have b: "paddleBranch edgeHit"
    by (simp add: paddleBranch_def edgeHit_before paddleCollision_def checkCollision_def
        ballRect_def paddleRect_def)
      (simp add: edgeHit_def createInitialState_def game_consts)
  show ?thesis
    using hitPos_bound [OF a b] a b by (simp add: game_consts maxAngle_def)
qed

subsection \<open>The pass over the bricks visits all of them\<close>

text \<open>
  C9. On an active tick every brick that is intact and overlaps the rectangle of the
  ball (taken after the move and the walls) is destroyed in the output state, the score
  grows by the points of all these bricks, and the velocity after the pass is the
  velocity before it with one bounce applied for each of them. In the reachable state
  \<open>doubleHit\<close> the ball overlaps two intact bricks of the lowest row; both are
  destroyed by one tick, both give their points, and both bounces negate the
  horizontal velocity, which is therefore negated twice in this tick.
\<close>

theorem brick_pass_hits_all:
  "(active s \<longrightarrow>
      length (bricks (gameLoop s)) = length (bricks s)
      \<and> (\<forall>i < length (bricks s).
           brickHit (ball (beforePaddle s)) (bricks s ! i) \<longrightarrow> destroyed (bricks (gameLoop s) ! i))
      \<and> score (gameLoop s) =
          score s + sum_list (map points (filter (brickHit (ball (beforePaddle s))) (bricks s)))
      \<and> ballVelocity (brickCollisions (paddleBounce (beforePaddle s))) =
          fold (bounceOff (ball (beforePaddle s))) (filter (brickHit (ball (beforePaddle s))) (bricks s))
            (ballVelocity (paddleBounce (beforePaddle s))))
   \<and> reachable doubleHit \<and> active doubleHit
   \<and> filter (brickHit (ball (beforePaddle doubleHit))) (bricks doubleHit) = [newBrick 6 4, newBrick 6 5]
   \<and> bounceOff (ball (beforePaddle doubleHit)) (newBrick 6 4) v = v\<lparr> x := - x v \<rparr>
   \<and> bounceOff (ball (beforePaddle doubleHit)) (newBrick 6 5) v = v\<lparr> x := - x v \<rparr>
   \<and> ballVelocity (paddleBounce (beforePaddle doubleHit)) = \<lparr> x = 0.02, y = - 3.5 \<rparr>
   \<and> ballVelocity (gameLoop doubleHit) = \<lparr> x = - (- 0.02), y = - 3.5 \<rparr>"
proof (intro conjI impI allI)
  assume a: "active s"
  show "length (bricks (gameLoop s)) = length (bricks s)"
    using a by (simp add: gameLoop_active)
  show "score (gameLoop s) =
      score s + sum_list (map points (filter (brickHit (ball (beforePaddle s))) (bricks s)))"
    using a by (simp add: gameLoop_active brickCollisions_score)
  show "ballVelocity (brickCollisions (paddleBounce (beforePaddle s))) =
      fold (bounceOff (ball (beforePaddle s))) (filter (brickHit (ball (beforePaddle s))) (bricks s))
        (ballVelocity (paddleBounce (beforePaddle s)))"
    by (simp add: brickCollisions_velocity)
  fix i
  assume "i < length (bricks s)" "brickHit (ball (beforePaddle s)) (bricks s ! i)"
  then show "destroyed (bricks (gameLoop s) ! i)"
    using a by (simp add: gameLoop_active brickCollisions_bricks)
next
  show "reachable doubleHit"
    by (rule reachable_doubleHit)
  show a: "active doubleHit"
    by (simp add: active_def doubleHit_fields)
  have b: "bricks doubleHit = initializeBricks"
    by (simp add: doubleHit_fields)
  show f: "filter (brickHit (ball (beforePaddle doubleHit))) (bricks doubleHit) = [newBrick 6 4, newBrick 6 5]"
    by (simp add: doubleHit_before b doubleHit_hits)
  show "bounceOff (ball (beforePaddle doubleHit)) (newBrick 6 4) v = v\<lparr> x := - x v \<rparr>"
    "bounceOff (ball (beforePaddle doubleHit)) (newBrick 6 5) v = v\<lparr> x := - x v \<rparr>"
    by (simp_all add: doubleHit_before bounceOff_64_65)
  show "ballVelocity (paddleBounce (beforePaddle doubleHit)) = \<lparr> x = 0.02, y = - 3.5 \<rparr>"
    by (simp add: doubleHit_no_paddle doubleHit_velocity)
  have "ballVelocity (brickCollisions (beforePaddle doubleHit)) = \<lparr> x = - (- 0.02), y = - 3.5 \<rparr>"
    using f by (simp add: brickCollisions_velocity doubleHit_before bounceOff_64_65 doubleHit_velocity)
  then show "ballVelocity (gameLoop doubleHit) = \<lparr> x = - (- 0.02), y = - 3.5 \<rparr>"
    using a by (simp add: gameLoop_active doubleHit_no_paddle lossCheck_def doubleHit_before game_consts)
qed

theorem brick_pass_hits_all_witness:
  "active doubleHit
   \<and> 64 < length (bricks doubleHit) \<and> 65 < length (bricks doubleHit)
   \<and> brickHit (ball (beforePaddle doubleHit)) (bricks doubleHit ! 64)
   \<and> brickHit (ball (beforePaddle doubleHit)) (bricks doubleHit ! 65)
   \<and> \<not> destroyed (bricks doubleHit ! 64) \<and> \<not> destroyed (bricks doubleHit ! 65)
   \<and> destroyed (bricks (gameLoop doubleHit) ! 64) \<and> destroyed (bricks (gameLoop doubleHit) ! 65)
   \<and> score doubleHit = 0 \<and> points (bricks doubleHit ! 64) = 10 \<and> points (bricks doubleHit ! 65) = 10
   \<and> score (gameLoop doubleHit) = 20"
proof -
  have b: "bricks doubleHit = initializeBricks"
    by (simp add: doubleHit_fields)
  have h: "brickHit \<lparr> x = 1613 / 10, y = 385 / 2 \<rparr> (newBrick 6 4)" "brickHit \<lparr> x = 1613 / 10, y = 385 / 2 \<rparr> (newBrick 6 5)"
    by (simp_all add: brickHit_def brickCollision_def checkCollision_def
      ballRect_def brickRect_def newBrick_def Let_def startX_eq BRICK_WIDTH_def BRICK_HEIGHT_def
      BRICK_PADDING_def BALL_SIZE_def)
  have p: "points (newBrick 6 4) = 10" "points (newBrick 6 5) = 10"
    by (simp_all add: newBrick_def BRICK_CONFIGS_def)
  have s0: "score doubleHit = 0"
    by (simp add: doubleHit_fields)
  show ?thesis
    using brick_pass_hits_all [of doubleHit] h
    by (simp add: b length_initializeBricks initializeBricks_64_65 doubleHit_before p s0 brickHit_def)
qed

subsection \<open>Score and bricks along a run\<close>

text \<open>
  C5. From a reachable state, along every sequence of ticks and other events that
  keep the level, the score does not decrease; the brick list keeps its length, and
  each brick keeps its id and its points and, once destroyed, stays destroyed; the
  score grows by exactly the points of the bricks that were intact at the start and
  are destroyed at the end, each counted once. The ids of the bricks are pairwise
  distinct. For a single tick this says that the tick adds the points of exactly the
  bricks it destroys.
\<close>

theorem score_counts_each_brick_once:
  assumes "reachable s" "list_all sameLevel es"
  shows "score s \<le> score (run es s)
       \<and> length (bricks (run es s)) = length (bricks s)
       \<and> (\<forall>i < length (bricks s).
            (destroyed (bricks s ! i) \<longrightarrow> destroyed (bricks (run es s) ! i)) \<and>
            id_brick (bricks (run es s) ! i) = id_brick (bricks s ! i) \<and>
            points (bricks (run es s) ! i) = points (bricks s ! i))
       \<and> score (run es s) =
           score s + sum_list (map points (newlyDestroyed (bricks s) (bricks (run es s))))
       \<and> distinct (map id_brick (bricks s))"
proof -
  have inv: "map intact (bricks s) = initializeBricks"
    using reachable_invariant [OF assms(1)] by (simp add: invariant_def)
  have od: "onlyDestroys (bricks s) (bricks (run es s))"
    and sc: "score (run es s) - sum_list (map points (filter destroyed (bricks (run es s)))) =
      score s - sum_list (map points (filter destroyed (bricks s)))"
    using run_onlyDestroys [OF assms(2), of s] by simp_all
  have eq: "score (run es s) =
      score s + sum_list (map points (newlyDestroyed (bricks s) (bricks (run es s))))"
    using sc destroyed_points_newly [OF od] by simp
  have "0 \<le> p" if "p \<in> set (map points (newlyDestroyed (bricks s) (bricks (run es s))))" for p
  proof -
    from that obtain brick where "brick \<in> set (bricks s)" "p = points brick"
      by (auto simp: newlyDestroyed_def dest: set_zip_leftD)
    then show ?thesis
      using field_brick(2) [OF inv] by simp
  qed
  then have mono: "score s \<le> score (run es s)"
    using eq sum_list_nonneg [of "map points (newlyDestroyed (bricks s) (bricks (run es s)))"]
    by simp
  have len: "length (bricks (run es s)) = length (bricks s)"
    using od by (simp add: onlyDestroys_def list_all2_lengthD)
  have idx: "(destroyed (bricks s ! i) \<longrightarrow> destroyed (bricks (run es s) ! i)) \<and>
      id_brick (bricks (run es s) ! i) = id_brick (bricks s ! i) \<and>
      points (bricks (run es s) ! i) = points (bricks s ! i)" if "i < length (bricks s)" for i
  proof -
    have "intact (bricks (run es s) ! i) = intact (bricks s ! i) \<and>
        (destroyed (bricks s ! i) \<longrightarrow> destroyed (bricks (run es s) ! i))"
      using od that by (simp add: onlyDestroys_def list_all2_conv_all_nth)
    then show ?thesis
      by (metis intact_simps(3) intact_simps(4))
  qed
  have "map id_brick (bricks s) = map id_brick (map intact (bricks s))"
    by simp
  then have "distinct (map id_brick (bricks s))"
    using distinct_ids by (simp only: inv)
  then show ?thesis
    using mono len idx eq by blast
qed

theorem score_counts_each_brick_once_witness:
  "reachable doubleHit
   \<and> list_all sameLevel [Tick, TogglePause, Tick, Tick, TogglePause]
   \<and> score doubleHit = 0
   \<and> score (run [Tick, TogglePause, Tick, Tick, TogglePause] doubleHit) = 20
   \<and> length (bricks (run [Tick, TogglePause, Tick, Tick, TogglePause] doubleHit)) = 70
   \<and> map id_brick (newlyDestroyed (bricks doubleHit)
        (bricks (run [Tick, TogglePause, Tick, Tick, TogglePause] doubleHit))) = [''6-4'', ''6-5'']"
proof -
  have es: "list_all sameLevel [Tick, TogglePause, Tick, Tick, TogglePause]"
    by simp
  have r: "run [Tick, TogglePause, Tick, Tick, TogglePause] doubleHit =
      togglePause (togglePause (gameLoop doubleHit))"
    by (simp add: run_def gameLoop_guard active_def togglePause_def doubleHit_tick)
  have b: "bricks (togglePause (togglePause (gameLoop doubleHit))) = bricks (gameLoop doubleHit)"
    "score (togglePause (togglePause (gameLoop doubleHit))) = 20"
    by (simp_all add: togglePause_def doubleHit_tick)
  show ?thesis
    using score_counts_each_brick_once [OF reachable_doubleHit es] reachable_doubleHit
    unfolding r b
    by (simp add: doubleHit_fields length_initializeBricks doubleHit_tick doubleHit_newlyDestroyed)
qed

subsection \<open>Lives and the end of the game\<close>

text \<open>
  C6. For every reachable state, the state after one more tick does not have both
  \<open>gameOver\<close> and \<open>gameWon\<close> set.
\<close>

theorem gameLoop_not_over_and_won:
  "reachable s \<Longrightarrow> \<not> (gameOver (gameLoop s) \<and> gameWon (gameLoop s))"
proof -
  assume "reachable s"
  then have "invariant s"
    by (rule reachable_invariant)
  then have "invariant (gameLoop s)"
    by (rule invariant_gameLoop)
  then show ?thesis
    by (auto simp: invariant_def)
qed

theorem gameLoop_not_over_and_won_witness:
  "reachable (startGame (1 / 2) (createInitialState 1))
   \<and> \<not> (gameOver (gameLoop (startGame (1 / 2) (createInitialState 1)))
        \<and> gameWon (gameLoop (startGame (1 / 2) (createInitialState 1))))"
proof -
  have "reachable (applyEvent (StartGame (1 / 2)) (createInitialState 1))"
    by (intro reachable.intros) simp_all
  then have r: "reachable (startGame (1 / 2) (createInitialState 1))"
    by simp
  show ?thesis
    using gameLoop_not_over_and_won [OF r] r by simp
qed

text \<open>
  C8. In every reachable state \<open>lives\<close> is between 0 and 3, and it is 0 only when
  the game is over. Once \<open>gameOver\<close> is set, any number of ticks returns the same
  state, and any sequence of events other than a restart or a level change keeps
  \<open>gameOver\<close> set and \<open>lives\<close> unchanged.
\<close>

theorem lives_range_gameOver_permanent:
  "(reachable s \<longrightarrow> 0 \<le> lives s \<and> lives s \<le> 3 \<and> (lives s = 0 \<longrightarrow> gameOver s))
   \<and> (gameOver t \<longrightarrow> (gameLoop ^^ n) t = t)
   \<and> (gameOver t \<and> list_all sameLevel es \<longrightarrow>
        gameOver (run es t) \<and> lives (run es t) = lives t)"
proof (intro conjI impI)
  assume "reachable s"
  then have "invariant s"
    by (rule reachable_invariant)
  then show "0 \<le> lives s" "lives s \<le> 3" "lives s = 0 \<Longrightarrow> gameOver s"
    by (auto simp: invariant_def)
next
  assume "gameOver t"
  then show "(gameLoop ^^ n) t = t"
    by (simp add: gameLoop_funpow_guard active_def)
next
  assume "gameOver t \<and> list_all sameLevel es"
  then show "gameOver (run es t)" "lives (run es t) = lives t"
    using run_gameOver [of t es] by simp_all
qed

theorem lives_range_gameOver_permanent_witness:
  "reachable (createInitialState 1) \<and> lives (createInitialState 1) = 3
   \<and> gameOver (ballLost 0\<lparr> gameOver := True \<rparr>)
   \<and> (gameLoop ^^ 5) (ballLost 0\<lparr> gameOver := True \<rparr>) = ballLost 0\<lparr> gameOver := True \<rparr>
   \<and> list_all sameLevel [Tick, StartGame (1 / 2), TogglePause, Tick, DragPaddle 10, Tick]
   \<and> gameOver (run [Tick, StartGame (1 / 2), TogglePause, Tick, DragPaddle 10, Tick]
         (ballLost 0\<lparr> gameOver := True \<rparr>))
   \<and> lives (run [Tick, StartGame (1 / 2), TogglePause, Tick, DragPaddle 10, Tick]
         (ballLost 0\<lparr> gameOver := True \<rparr>)) = 0"
  using lives_range_gameOver_permanent
    [of "createInitialState 1" "ballLost 0\<lparr> gameOver := True \<rparr>" 5
      "[Tick, StartGame (1 / 2), TogglePause, Tick, DragPaddle 10, Tick]"]
    reachable.mounted
  by (simp add: ballLost_def createInitialState_def)

section \<open>Collision detection is the four strict tests\<close>

text \<open>
  C10. \<open>checkCollision\<close> is a total function of two real rectangles that is true
  exactly when the four strict inequalities hold. Whenever one of the four tests is met
  with equality (the rectangles only touch along that edge), the result is false.
\<close>

theorem checkCollision_strict_overlap:
  "(checkCollision a b \<longleftrightarrow>
      x a < x b + width b \<and> x a + width a > x b \<and> y a < y b + height b \<and> y a + height a > y b)
   \<and> (x a = x b + width b \<longrightarrow> \<not> checkCollision a b)
   \<and> (x a + width a = x b \<longrightarrow> \<not> checkCollision a b)
   \<and> (y a = y b + height b \<longrightarrow> \<not> checkCollision a b)
   \<and> (y a + height a = y b \<longrightarrow> \<not> checkCollision a b)"
  by (simp add: checkCollision_def)

theorem checkCollision_strict_overlap_witness:
  "checkCollision \<lparr> x = 0, y = 0, width = 12, height = 12 \<rparr> \<lparr> x = 11, y = 11, width = 28, height = 18 \<rparr>
   \<and> \<not> checkCollision \<lparr> x = 28, y = 0, width = 12, height = 12 \<rparr> \<lparr> x = 0, y = 0, width = 28, height = 18 \<rparr>
   \<and> \<not> checkCollision \<lparr> x = 0, y = 0, width = 12, height = 12 \<rparr> \<lparr> x = 12, y = 0, width = 28, height = 18 \<rparr>
   \<and> \<not> checkCollision \<lparr> x = 0, y = 18, width = 12, height = 12 \<rparr> \<lparr> x = 0, y = 0, width = 28, height = 18 \<rparr>
   \<and> \<not> checkCollision \<lparr> x = 0, y = 0, width = 12, height = 12 \<rparr> \<lparr> x = 0, y = 12, width = 28, height = 18 \<rparr>"
  using
    checkCollision_strict_overlap
      [of "\<lparr> x = 0, y = 0, width = 12, height = 12 \<rparr>" "\<lparr> x = 11, y = 11, width = 28, height = 18 \<rparr>"]
    checkCollision_strict_overlap
      [of "\<lparr> x = 28, y = 0, width = 12, height = 12 \<rparr>" "\<lparr> x = 0, y = 0, width = 28, height = 18 \<rparr>"]
    checkCollision_strict_overlap
      [of "\<lparr> x = 0, y = 0, width = 12, height = 12 \<rparr>" "\<lparr> x = 12, y = 0, width = 28, height = 18 \<rparr>"]
    checkCollision_strict_overlap
      [of "\<lparr> x = 0, y = 18, width = 12, height = 12 \<rparr>" "\<lparr> x = 0, y = 0, width = 28, height = 18 \<rparr>"]
    checkCollision_strict_overlap
      [of "\<lparr> x = 0, y = 0, width = 12, height = 12 \<rparr>" "\<lparr> x = 0, y = 12, width = 28, height = 18 \<rparr>"]
  by simp

end
